theory Spec2Isabelle
  imports Complex_Main
begin

section \<open>Values\<close>

text \<open>
  The chaos runner (\<open>tools/chaos/chaos_runner.py\<close>) moves weakly typed values between a
  JSON scenario definition, the result dictionary of a step and the JSON run record.

  A Python \<open>float\<close> is an IEEE double: a finite number, an infinity or NaN. The runner
  never computes with floats, it only compares them, so a finite double is modelled by
  the real number it denotes. Comparisons follow IEEE: every comparison with NaN is false.
\<close>

datatype pyfloat = Finite real | PosInf | NegInf | NaN

fun float_le :: "pyfloat \<Rightarrow> pyfloat \<Rightarrow> bool" where
  "float_le NaN b = False"
| "float_le a NaN = False"
| "float_le NegInf b = True"
| "float_le a PosInf = True"
| "float_le (Finite a) (Finite b) = (a \<le> b)"
| "float_le a b = False"

definition float_ge :: "pyfloat \<Rightarrow> pyfloat \<Rightarrow> bool" where
  "float_ge a b = float_le b a"

definition float_eq :: "pyfloat \<Rightarrow> pyfloat \<Rightarrow> bool" where
  "float_eq a b = (a \<noteq> NaN \<and> a = b)"

text \<open>
  What \<open>json.load\<close> returns, and what the dictionaries of the runner hold. A dictionary is
  an association list in insertion order; \<open>map_of\<close> looks a key up.
\<close>

datatype json =
    JNull
  | JBool bool
  | JInt int
  | JFloat pyfloat
  | JStr string
  | JArr "json list"
  | JObj "(string \<times> json) list"

type_synonym dict = "(string \<times> json) list"

text \<open>Python's truth value of an object (\<open>if x\<close>, \<open>not x\<close>, \<open>x or y\<close>).\<close>

fun truthy :: "json \<Rightarrow> bool" where
  "truthy JNull = False"
| "truthy (JBool b) = b"
| "truthy (JInt i) = (i \<noteq> 0)"
| "truthy (JFloat f) = (f \<noteq> Finite 0)"
| "truthy (JStr s) = (s \<noteq> [])"
| "truthy (JArr xs) = (xs \<noteq> [])"
| "truthy (JObj kvs) = (kvs \<noteq> [])"

text \<open>\<open>d.get(k)\<close>: the value, or \<open>None\<close> for a missing key.\<close>

definition dict_get :: "dict \<Rightarrow> string \<Rightarrow> json" where
  "dict_get d k = (case map_of d k of None \<Rightarrow> JNull | Some v \<Rightarrow> v)"

text \<open>\<open>d[k] = v\<close>: an existing key keeps its place, a new key goes last.\<close>

fun dict_set :: "dict \<Rightarrow> string \<Rightarrow> json \<Rightarrow> dict" where
  "dict_set [] k v = [(k, v)]"
| "dict_set ((k', v') # d) k v =
     (if k' = k then (k, v) # d else (k', v') # dict_set d k v)"

text \<open>\<open>{**a, **b}\<close>: the entries of \<open>a\<close>, updated with those of \<open>b\<close> in order.\<close>

fun dict_merge :: "dict \<Rightarrow> dict \<Rightarrow> dict" where
  "dict_merge a [] = a"
| "dict_merge a ((k, v) # b) = dict_merge (dict_set a k v) b"

text \<open>
  The number a value stands for when Python compares it with a float: a float, an int
  (compared exactly) or a bool (an int). Any other value makes the comparison raise
  \<open>TypeError\<close>.
\<close>

fun py_num :: "json \<Rightarrow> pyfloat option" where
  "py_num (JFloat f) = Some f"
| "py_num (JInt i) = Some (Finite (of_int i))"
| "py_num (JBool b) = Some (Finite (if b then 1 else 0))"
| "py_num v = None"

section \<open>Exceptions\<close>

text \<open>
  Every \<open>raise\<close> of the module is a constructor that carries the values its message
  interpolates. \<open>External\<close> stands for what the collaborators raise:
  \<open>subprocess.run\<close> (\<open>CalledProcessError\<close> on a non-zero exit), \<open>urlopen\<close>, \<open>json.loads\<close>
  and the builtin \<open>float\<close>. \<open>OSError\<close> is what \<open>open(..., "w")\<close> raises for a file that cannot
  be opened for writing (\<open>FileNotFoundError\<close> for a missing directory, \<open>PermissionError\<close>).
\<close>

datatype exc =
    KeyError string
  | KeyError_scenario string
  | TypeError
  | ValueError_comparison json
  | ValueError_no_steps json
  | ValueError_command json
  | ValueError_query json
  | ValueError_action json
  | AssertionError_slo json json json string pyfloat
  | FileNotFoundError string
  | OSError string
  | External string

section \<open>Data model\<close>

record SLOExpectation =
  name :: json
  comparison :: string
  threshold :: pyfloat

text \<open>
  \<open>SLOExpectation(name=..., comparison=..., threshold=...)\<close> with \<open>__post_init__\<close>:
  \<open>comparison not in {"<=", ">="}\<close> hashes the value (a list or a dict is unhashable,
  \<open>TypeError\<close>) and compares it with the two strings.
\<close>

definition SLOExpectation_init :: "json \<Rightarrow> json \<Rightarrow> pyfloat \<Rightarrow> exc + SLOExpectation" where
  "SLOExpectation_init n c t =
     (case c of
        JArr xs \<Rightarrow> Inl TypeError
      | JObj kvs \<Rightarrow> Inl TypeError
      | JStr s \<Rightarrow>
          if s = ''<='' \<or> s = ''>=''
          then Inr \<lparr>name = n, comparison = s, threshold = t\<rparr>
          else Inl (ValueError_comparison c)
      | other \<Rightarrow> Inl (ValueError_comparison c))"

text \<open>
  The dataclass does not check the declared field types, so a field holds whatever the
  scenario definition gave; \<open>None\<close> is \<open>JNull\<close>.
\<close>

record ChaosStep =
  step_id :: json
  action :: json
  command :: json
  query :: json
  rollback :: json
  expected_slo :: "SLOExpectation option"
  observation :: json

record ChaosScenario =
  scenario_id :: json
  title :: json
  description :: json
  impact :: json
  steady_state_check :: json
  steps :: "ChaosStep list"

section \<open>SLO evaluator\<close>

text \<open>
  How \<open>_assert_slo\<close> leaves: it returns a report, or it raises; \<open>Raises\<close> keeps the local
  \<open>report\<close> as it is at the \<open>raise\<close>, which the unwinding then drops.
\<close>

datatype slo_exit = Returns dict | Raises exc dict

definition assert_slo :: "ChaosStep \<Rightarrow> dict \<Rightarrow> slo_exit" where
  "assert_slo step result =
     (case expected_slo step of
        None \<Rightarrow> Returns []
      | Some slo \<Rightarrow>
          (let report = [(''slo_name'', name slo),
                         (''slo_threshold'', JFloat (threshold slo)),
                         (''slo_comparison'', JStr (comparison slo))];
               v = dict_get result ''metric_value''
           in if v = JNull
              then Returns (dict_set report ''slo_status'' (JStr ''pending''))
              else
                (let report = dict_set report ''slo_value'' v
                 in case py_num v of
                      None \<Rightarrow> Raises TypeError report
                    | Some x \<Rightarrow>
                        (let passed = (if comparison slo = ''<=''
                                       then float_le x (threshold slo)
                                       else float_ge x (threshold slo))
                         in if \<not> passed
                            then Raises (AssertionError_slo (step_id step) (name slo) v
                                           (comparison slo) (threshold slo))
                                        (dict_set report ''slo_status'' (JStr ''violated''))
                            else Returns (dict_set report ''slo_status'' (JStr ''met''))))))"

text \<open>The evaluation passes when \<open>_assert_slo\<close> returns the report with status \<open>met\<close>.\<close>

definition slo_met :: "slo_exit \<Rightarrow> bool" where
  "slo_met x = (case x of Returns r \<Rightarrow> map_of r ''slo_status'' = Some (JStr ''met'')
                        | Raises e r \<Rightarrow> False)"

definition is_AssertionError :: "exc \<Rightarrow> bool" where
  "is_AssertionError e = (case e of AssertionError_slo i n v c t \<Rightarrow> True | other \<Rightarrow> False)"

text \<open>
  It is a hard stop when it raises \<open>AssertionError\<close> with the report marked \<open>violated\<close>.
\<close>

definition slo_violated :: "slo_exit \<Rightarrow> bool" where
  "slo_violated x =
     (case x of Returns r \<Rightarrow> False
              | Raises e r \<Rightarrow>
                  is_AssertionError e \<and> map_of r ''slo_status'' = Some (JStr ''violated''))"

definition slo_pending :: "slo_exit \<Rightarrow> bool" where
  "slo_pending x = (case x of Returns r \<Rightarrow> map_of r ''slo_status'' = Some (JStr ''pending'')
                            | Raises e r \<Rightarrow> False)"

section \<open>The world outside the runner\<close>

text \<open>
  What a run does to its environment is kept as a trace of effects, and the run-artifact
  store as a map from file name (inside \<open>RUN_DIR\<close>) to the document written there.
  \<open>json.dump\<close> followed by \<open>json.load\<close> gives back the dictionary it was given, so a stored
  document is modelled by the payload itself. \<open>writable\<close> says which names can be opened
  for writing: the recorder creates \<open>RUN_DIR\<close> and nothing below it, so a name with a
  \<open>/\<close> whose directory does not exist cannot, nor can any name in a store that refuses
  writes. The runner never changes it. Printing to the terminal is left out.
\<close>

record StepRecord =
  r_step_id :: json
  r_action :: json
  r_status :: json
  r_detail :: dict

record Payload =
  p_scenario_id :: json
  p_scenario_title :: json
  p_started_at :: string
  p_note :: "string option"
  p_dry_run :: bool
  p_steps :: "StepRecord list"
  p_failed :: "string option"

datatype effect =
    Spawn json
  | HttpGet string json
  | WriteFile string

record world =
  files :: "string \<Rightarrow> Payload option"
  writable :: "string \<Rightarrow> bool"
  effects :: "effect list"

definition emit :: "effect \<Rightarrow> world \<Rightarrow> world" where
  "emit e w = w\<lparr>effects := effects w @ [e]\<rparr>"

text \<open>
  The collaborators answer as functions of what has happened so far and of the request:
  \<open>shell\<close> is \<open>subprocess.run(command, shell=True, check=True, capture_output=True,
  text=True)\<close>, which returns the captured \<open>(stdout, stderr)\<close> or raises; \<open>http\<close> is the
  request of \<open>MetricClient.fetch_value\<close> with the decoding of its answer
  (\<open>payload.get("value")\<close> converted by \<open>float\<close>, or \<open>None\<close>).
\<close>

type_synonym shell = "effect list \<Rightarrow> json \<Rightarrow> exc + (string \<times> string)"
type_synonym http = "effect list \<Rightarrow> string \<Rightarrow> json \<Rightarrow> exc + pyfloat option"

section \<open>Metric client\<close>

text \<open>
  \<open>MetricClient.fetch_value\<close>: without an endpoint (\<open>None\<close> or the empty string) no request
  is made and the value is \<open>None\<close>.
\<close>

definition fetch_value ::
  "http \<Rightarrow> string option \<Rightarrow> json \<Rightarrow> world \<Rightarrow> (exc + pyfloat option) \<times> world" where
  "fetch_value net endpoint q w =
     (case endpoint of
        None \<Rightarrow> (Inr None, w)
      | Some url \<Rightarrow>
          if url = [] then (Inr None, w)
          else (net (effects w) url q, emit (HttpGet url q) w))"

section \<open>Step executor\<close>

text \<open>The marker of a shell step that a dry run did not execute (UTF-8).\<close>

definition dry_run_marker :: string where
  "dry_run_marker = ''dry-run '' @
     [CHR 0xE6, CHR 0x9C, CHR 0xAA, CHR 0xE6, CHR 0x89, CHR 0xA7, CHR 0xE8, CHR 0xA1, CHR 0x8C]"

definition execute_step ::
  "shell \<Rightarrow> http \<Rightarrow> string option \<Rightarrow> ChaosStep \<Rightarrow> bool \<Rightarrow> world \<Rightarrow> (exc + dict) \<times> world" where
  "execute_step sh net endpoint step dry_run w =
     (let detail = [(''status'', JStr ''success''), (''observation'', observation step)]
      in if action step = JStr ''shell'' then
           (if \<not> truthy (command step) then (Inl (ValueError_command (step_id step)), w)
            else
              (let detail = dict_set detail ''command'' (command step)
               in if dry_run
                  then (Inr (dict_set (dict_set detail ''status'' (JStr ''skipped''))
                               ''output'' (JStr dry_run_marker)), w)
                  else
                    (case sh (effects w) (command step) of
                       Inl e \<Rightarrow> (Inl e, emit (Spawn (command step)) w)
                     | Inr (out, err) \<Rightarrow>
                         (Inr (dict_set (dict_set detail ''stdout'' (JStr out))
                                 ''stderr'' (JStr err)),
                          emit (Spawn (command step)) w))))
         else if action step = JStr ''check-metric'' then
           (if \<not> truthy (query step) then (Inl (ValueError_query (step_id step)), w)
            else
              (case fetch_value net endpoint (query step) w of
                 (Inl e, w') \<Rightarrow> (Inl e, w')
               | (Inr v, w') \<Rightarrow>
                   (let detail = dict_set detail ''metric_query'' (query step);
                        detail = dict_set detail ''metric_value''
                                   (case v of None \<Rightarrow> JNull | Some x \<Rightarrow> JFloat x)
                    in if v = None
                       then (Inr (dict_set detail ''status'' (JStr ''skipped'')), w')
                       else (Inr detail, w'))))
         else (Inl (ValueError_action (action step)), w))"

section \<open>Run recorder\<close>

text \<open>
  \<open>datetime.utcnow()\<close> and its \<open>strftime("%Y%m%dT%H%M%SZ")\<close>: four digits of the year, two
  of each other field, nothing of the microseconds.
\<close>

record datetime =
  year :: nat
  month :: nat
  day :: nat
  hour :: nat
  minute :: nat
  second :: nat
  microsecond :: nat

definition digit :: "nat \<Rightarrow> char" where
  "digit n = ''0123456789'' ! (n mod 10)"

definition pad2 :: "nat \<Rightarrow> string" where
  "pad2 n = [digit (n div 10), digit n]"

definition pad4 :: "nat \<Rightarrow> string" where
  "pad4 n = [digit (n div 1000), digit (n div 100), digit (n div 10), digit n]"

definition strftime :: "datetime \<Rightarrow> string" where
  "strftime d = pad4 (year d) @ pad2 (month d) @ pad2 (day d) @ ''T'' @
                pad2 (hour d) @ pad2 (minute d) @ pad2 (second d) @ ''Z''"

text \<open>\<open>note.replace(" ", "_")\<close>\<close>

definition replace_spaces :: "string \<Rightarrow> string" where
  "replace_spaces s = map (\<lambda>c. if c = CHR '' '' then CHR ''_'' else c) s"

text \<open>
  The recorder: the name of its file inside \<open>RUN_DIR\<close>, the payload in memory and the
  \<open>_finalized\<close> flag. (The attributes \<open>scenario\<close>, \<open>note\<close> and \<open>dry_run\<close> are stored and never
  read again.) \<open>fmt\<close> is Python's formatting of a value inside an f-string.
\<close>

record ChaosRunRecorder =
  file_path :: string
  payload :: Payload
  finalized :: bool

definition ChaosRunRecorder_init ::
  "(json \<Rightarrow> string) \<Rightarrow> datetime \<Rightarrow> ChaosScenario \<Rightarrow> string option \<Rightarrow> bool \<Rightarrow> ChaosRunRecorder" where
  "ChaosRunRecorder_init fmt now scenario note dry_run =
     (let timestamp = strftime now;
          safe_note = (case note of None \<Rightarrow> []
                       | Some n \<Rightarrow> if n \<noteq> [] then replace_spaces n else []);
          suffix = (if safe_note \<noteq> [] then ''_'' @ safe_note else [])
      in \<lparr>file_path = timestamp @ ''_'' @ fmt (scenario_id scenario) @ suffix @ ''.json'',
          payload = \<lparr>p_scenario_id = scenario_id scenario,
                     p_scenario_title = title scenario,
                     p_started_at = timestamp,
                     p_note = note,
                     p_dry_run = dry_run,
                     p_steps = [],
                     p_failed = None\<rparr>,
          finalized = False\<rparr>)"

definition append_step :: "ChaosRunRecorder \<Rightarrow> ChaosStep \<Rightarrow> json \<Rightarrow> dict \<Rightarrow> ChaosRunRecorder" where
  "append_step r step status detail =
     r\<lparr>payload := (payload r)\<lparr>p_steps := p_steps (payload r) @
          [\<lparr>r_step_id = step_id step, r_action = action step,
            r_status = status, r_detail = detail\<rparr>]\<rparr>\<rparr>"

text \<open>
  \<open>finalize\<close>: a sealed recorder returns at once. Otherwise the file is opened for
  writing; when that raises, nothing is written and \<open>_finalized\<close> stays \<open>False\<close>.
\<close>

definition finalize ::
  "ChaosRunRecorder \<Rightarrow> world \<Rightarrow> (exc + unit) \<times> ChaosRunRecorder \<times> world" where
  "finalize r w =
     (if finalized r then (Inr (), r, w)
      else if \<not> writable w (file_path r) then (Inl (OSError (file_path r)), r, w)
      else (Inr (), r\<lparr>finalized := True\<rparr>,
            emit (WriteFile (file_path r))
              (w\<lparr>files := (files w)(file_path r \<mapsto> payload r)\<rparr>)))"

text \<open>\<open>abort\<close>: the failure text goes into the payload, then \<open>finalize\<close>.\<close>

definition abort ::
  "ChaosRunRecorder \<Rightarrow> string \<Rightarrow> world \<Rightarrow> (exc + unit) \<times> ChaosRunRecorder \<times> world" where
  "abort r error w = finalize (r\<lparr>payload := (payload r)\<lparr>p_failed := Some error\<rparr>\<rparr>) w"

section \<open>Runner\<close>

definition show_scenario :: "(string \<Rightarrow> ChaosScenario option) \<Rightarrow> string \<Rightarrow> exc + ChaosScenario" where
  "show_scenario scenarios sid =
     (case scenarios sid of None \<Rightarrow> Inl (KeyError_scenario sid) | Some s \<Rightarrow> Inr s)"

text \<open>
  The body of the \<open>for\<close> loop of \<open>run\<close>, and the loop: the first exception leaves it.
  \<open>result["status"]\<close> raises \<open>KeyError\<close> on a result without the key.
\<close>

fun run_steps ::
  "shell \<Rightarrow> http \<Rightarrow> string option \<Rightarrow> bool \<Rightarrow> ChaosStep list \<Rightarrow> ChaosRunRecorder \<Rightarrow> world
     \<Rightarrow> (exc + unit) \<times> ChaosRunRecorder \<times> world" where
  "run_steps sh net endpoint dry_run [] r w = (Inr (), r, w)"
| "run_steps sh net endpoint dry_run (step # rest) r w =
     (case execute_step sh net endpoint step dry_run w of
        (Inl e, w') \<Rightarrow> (Inl e, r, w')
      | (Inr result, w') \<Rightarrow>
          (case assert_slo step result of
             Raises e report \<Rightarrow> (Inl e, r, w')
           | Returns slo_report \<Rightarrow>
               (case map_of result ''status'' of
                  None \<Rightarrow> (Inl (KeyError ''status''), r, w')
                | Some status \<Rightarrow>
                    run_steps sh net endpoint dry_run rest
                      (append_step r step status (dict_merge result slo_report)) w')))"

text \<open>
  The \<open>except Exception as exc\<close> block of \<open>run\<close>: \<open>recorder.abort(str(exc))\<close>, then
  \<open>raise\<close>. When \<open>abort\<close> raises, its exception leaves the block and the \<open>raise\<close> is
  not reached. \<open>describe\<close> is \<open>str(exc)\<close>, the text of an exception.
\<close>

definition run_handler ::
  "(exc \<Rightarrow> string) \<Rightarrow> exc \<Rightarrow> ChaosRunRecorder \<Rightarrow> world \<Rightarrow> (exc + string) \<times> world" where
  "run_handler describe e r w =
     (case abort r (describe e) w of
        (Inl e', r', w') \<Rightarrow> (Inl e', w')
      | (Inr u, r', w') \<Rightarrow> (Inl e, w'))"

text \<open>
  \<open>ChaosRunner.run\<close>: the loop and \<open>recorder.finalize()\<close> are inside the \<open>try\<close>. \<open>now\<close> is
  the clock when the recorder is created.
\<close>

definition run ::
  "shell \<Rightarrow> http \<Rightarrow> (json \<Rightarrow> string) \<Rightarrow> (exc \<Rightarrow> string) \<Rightarrow>
   (string \<Rightarrow> ChaosScenario option) \<Rightarrow> string option \<Rightarrow>
   string \<Rightarrow> bool \<Rightarrow> string option \<Rightarrow> datetime \<Rightarrow> world \<Rightarrow> (exc + string) \<times> world" where
  "run sh net fmt describe scenarios endpoint sid dry_run note now w =
     (case show_scenario scenarios sid of
        Inl e \<Rightarrow> (Inl e, w)
      | Inr scenario \<Rightarrow>
          (let recorder = ChaosRunRecorder_init fmt now scenario note dry_run
           in case run_steps sh net endpoint dry_run (steps scenario) recorder w of
                (Inl e, r, w') \<Rightarrow> run_handler describe e r w'
              | (Inr u, r, w') \<Rightarrow>
                  (case finalize r w' of
                     (Inl e, r', w'') \<Rightarrow> run_handler describe e r' w''
                   | (Inr u', r', w'') \<Rightarrow> (Inr (file_path r'), w''))))"

section \<open>Scenario construction\<close>

text \<open>Sequencing of computations that may raise: the first exception is the result.\<close>

definition bind_exc :: "exc + 'a \<Rightarrow> ('a \<Rightarrow> exc + 'b) \<Rightarrow> exc + 'b" where
  "bind_exc x f = (case x of Inl e \<Rightarrow> Inl e | Inr v \<Rightarrow> f v)"

text \<open>\<open>v[k]\<close> with a string key: only a dictionary can be indexed by it.\<close>

fun subscript :: "json \<Rightarrow> string \<Rightarrow> exc + json" where
  "subscript (JObj kvs) k = (case map_of kvs k of None \<Rightarrow> Inl (KeyError k) | Some v \<Rightarrow> Inr v)"
| "subscript v k = Inl TypeError"

text \<open>
  The \<open>SLOExpectation(...)\<close> call of \<open>from_dict\<close>: the three arguments are evaluated in
  order, then \<open>__post_init__\<close> runs. \<open>to_float\<close> is the builtin \<open>float\<close>.
\<close>

definition slo_from_raw :: "(json \<Rightarrow> exc + pyfloat) \<Rightarrow> json \<Rightarrow> exc + SLOExpectation" where
  "slo_from_raw to_float e =
     bind_exc (subscript e ''name'') (\<lambda>n.
     bind_exc (subscript e ''comparison'') (\<lambda>c.
     bind_exc (subscript e ''threshold'') (\<lambda>t.
     bind_exc (to_float t) (\<lambda>f.
       SLOExpectation_init n c f))))"

text \<open>
  \<open>slo = None; if "expected_slo" in raw_step and raw_step["expected_slo"]: slo = ...\<close>
\<close>

definition slo_of_step :: "(json \<Rightarrow> exc + pyfloat) \<Rightarrow> dict \<Rightarrow> exc + SLOExpectation option" where
  "slo_of_step to_float kvs =
     (case map_of kvs ''expected_slo'' of
        None \<Rightarrow> Inr None
      | Some e \<Rightarrow>
          if truthy e
          then bind_exc (slo_from_raw to_float e) (\<lambda>s. Inr (Some s))
          else Inr None)"

text \<open>
  One round of the loop of \<open>from_dict\<close>. A step that is not a dictionary raises \<open>TypeError\<close>,
  at \<open>"expected_slo" in raw_step\<close> or at the first \<open>raw_step[...]\<close>.
\<close>

definition step_from_raw :: "(json \<Rightarrow> exc + pyfloat) \<Rightarrow> json \<Rightarrow> exc + ChaosStep" where
  "step_from_raw to_float raw_step =
     (case raw_step of
        JObj kvs \<Rightarrow>
          bind_exc (slo_of_step to_float kvs) (\<lambda>slo.
          bind_exc (subscript raw_step ''id'') (\<lambda>i.
          bind_exc (subscript raw_step ''action'') (\<lambda>a.
            Inr \<lparr>step_id = i, action = a,
                 command = dict_get kvs ''command'',
                 query = dict_get kvs ''query'',
                 rollback = dict_get kvs ''rollback'',
                 expected_slo = slo,
                 observation = dict_get kvs ''observation''\<rparr>)))
      | other \<Rightarrow> Inl TypeError)"

fun steps_from_raw :: "(json \<Rightarrow> exc + pyfloat) \<Rightarrow> json list \<Rightarrow> exc + ChaosStep list" where
  "steps_from_raw to_float [] = Inr []"
| "steps_from_raw to_float (raw_step # raw_rest) =
     bind_exc (step_from_raw to_float raw_step) (\<lambda>step.
     bind_exc (steps_from_raw to_float raw_rest) (\<lambda>later.
       Inr (step # later)))"

text \<open>What a \<open>for\<close> loop iterates over: the items of a list, the characters of a string, the
  keys of a dictionary.\<close>

fun py_iter :: "json \<Rightarrow> exc + json list" where
  "py_iter (JArr xs) = Inr xs"
| "py_iter (JStr s) = Inr (map (\<lambda>c. JStr [c]) s)"
| "py_iter (JObj kvs) = Inr (map (\<lambda>kv. JStr (fst kv)) kvs)"
| "py_iter v = Inl TypeError"

text \<open>
  \<open>ChaosScenario.from_dict\<close>. The message of the \<open>ValueError\<close> for an empty list of steps
  reads \<open>data['id']\<close>, which raises \<open>KeyError\<close> itself when the key is missing.
\<close>

definition from_dict :: "(json \<Rightarrow> exc + pyfloat) \<Rightarrow> dict \<Rightarrow> exc + ChaosScenario" where
  "from_dict to_float data =
     bind_exc (subscript (JObj data) ''steps'') (\<lambda>raw_steps.
     bind_exc (py_iter raw_steps) (\<lambda>items.
     bind_exc (steps_from_raw to_float items) (\<lambda>sts.
       if sts = []
       then bind_exc (subscript (JObj data) ''id'') (\<lambda>i. Inl (ValueError_no_steps i))
       else
         bind_exc (subscript (JObj data) ''id'') (\<lambda>i.
         bind_exc (subscript (JObj data) ''title'') (\<lambda>t.
         bind_exc (subscript (JObj data) ''description'') (\<lambda>d.
         bind_exc (subscript (JObj data) ''impact'') (\<lambda>m.
           Inr \<lparr>scenario_id = i, title = t, description = d, impact = m,
                steady_state_check =
                  (case map_of data ''steady_state_check'' of None \<Rightarrow> JObj [] | Some v \<Rightarrow> v),
                steps = sts\<rparr>)))))))"

section \<open>Replay\<close>

text \<open>
  \<open>replay\<close> prints a header, a title line, and for every step a line and one line for
  each entry of its detail but \<open>status\<close>. What it prints is kept as the sequence of its
  \<open>print\<close> calls: the header with its text, the other lines with the values they
  interpolate.

  The header is an f-string between triple quotes, each line indented by eight blanks,
  passed through \<open>textwrap.dedent\<close> and \<open>str.strip\<close> after the values are in. The labels
  and the placeholder of \<open>x or '...'\<close> (for a note or a failure text that is absent or
  empty) are given in UTF-8. \<open>fmt\<close> is Python's formatting of a value inside an f-string;
  \<open>dedent\<close> and \<open>strip\<close> are the two library functions.
\<close>

definition none_label :: string where
  "none_label = [CHR 0xE6, CHR 0x97, CHR 0xA0]"

definition or_none :: "string option \<Rightarrow> string" where
  "or_none x = (case x of None \<Rightarrow> none_label | Some s \<Rightarrow> if s \<noteq> [] then s else none_label)"

definition label_scenario :: string where
  "label_scenario = [CHR 0xE5, CHR 0x9C, CHR 0xBA, CHR 0xE6, CHR 0x99, CHR 0xAF] @ '': ''"

definition label_started :: string where
  "label_started = [CHR 0xE5, CHR 0x90, CHR 0xAF, CHR 0xE5, CHR 0x8A, CHR 0xA8,
                    CHR 0xE6, CHR 0x97, CHR 0xB6, CHR 0xE9, CHR 0x97, CHR 0xB4] @ '': ''"

definition label_note :: string where
  "label_note = [CHR 0xE5, CHR 0xA4, CHR 0x87, CHR 0xE6, CHR 0xB3, CHR 0xA8] @ '': ''"

definition label_failed :: string where
  "label_failed = [CHR 0xE5, CHR 0xA4, CHR 0xB1, CHR 0xE8, CHR 0xB4, CHR 0xA5,
                   CHR 0xE5, CHR 0x8E, CHR 0x9F, CHR 0xE5, CHR 0x9B, CHR 0xA0] @ '': ''"

text \<open>A line break followed by the indentation of the template.\<close>

definition nl_indent :: string where
  "nl_indent = CHR 0x0A # ''        ''"

text \<open>\<open>str(True)\<close> and \<open>str(False)\<close>.\<close>

definition py_bool :: "bool \<Rightarrow> string" where
  "py_bool b = (if b then ''True'' else ''False'')"

text \<open>The f-string of the header, before \<open>dedent\<close> and \<open>strip\<close>.\<close>

definition header_text :: "(json \<Rightarrow> string) \<Rightarrow> Payload \<Rightarrow> string" where
  "header_text fmt p =
     nl_indent @ label_scenario @ fmt (p_scenario_id p) @ '' - '' @ fmt (p_scenario_title p) @
     nl_indent @ label_started @ p_started_at p @
     nl_indent @ ''Dry-run: '' @ py_bool (p_dry_run p) @
     nl_indent @ label_note @ or_none (p_note p) @
     nl_indent @ label_failed @ or_none (p_failed p) @
     nl_indent"

datatype printed =
    Header string
  | StepsTitle
  | StepLine json json json
  | DetailLine string json

definition render_step :: "StepRecord \<Rightarrow> printed list" where
  "render_step s =
     StepLine (r_step_id s) (r_action s) (r_status s) #
     map (\<lambda>kv. DetailLine (fst kv) (snd kv)) (filter (\<lambda>kv. fst kv \<noteq> ''status'') (r_detail s))"

definition render ::
  "(json \<Rightarrow> string) \<Rightarrow> (string \<Rightarrow> string) \<Rightarrow> (string \<Rightarrow> string) \<Rightarrow> Payload \<Rightarrow> printed list" where
  "render fmt dedent strip p =
     Header (strip (dedent (header_text fmt p))) #
     StepsTitle #
     concat (map render_step (p_steps p))"

definition replay ::
  "(json \<Rightarrow> string) \<Rightarrow> (string \<Rightarrow> string) \<Rightarrow> (string \<Rightarrow> string) \<Rightarrow> world \<Rightarrow> string
     \<Rightarrow> exc + printed list" where
  "replay fmt dedent strip w record_path =
     (case files w record_path of
        None \<Rightarrow> Inl (FileNotFoundError record_path)
      | Some p \<Rightarrow> Inr (render fmt dedent strip p))"

section \<open>Sequences of seal calls\<close>

text \<open>
  A recorder is sealed by \<open>finalize()\<close> or by \<open>abort(error)\<close>; cleanup code may call either
  any number of times, one after the other, whether or not a call raised.
\<close>

datatype seal = Finalize | Abort string

fun seal_call :: "ChaosRunRecorder \<times> world \<Rightarrow> seal \<Rightarrow> ChaosRunRecorder \<times> world" where
  "seal_call (r, w) Finalize = snd (finalize r w)"
| "seal_call (r, w) (Abort error) = snd (abort r error w)"

definition seal_calls :: "ChaosRunRecorder \<times> world \<Rightarrow> seal list \<Rightarrow> ChaosRunRecorder \<times> world" where
  "seal_calls rw calls = foldl seal_call rw calls"

text \<open>How many times a run artifact has been written.\<close>

definition writes :: "world \<Rightarrow> nat" where
  "writes w = length (filter (\<lambda>e. case e of WriteFile p \<Rightarrow> True | other \<Rightarrow> False) (effects w))"

section \<open>An example catalog\<close>

text \<open>
  The three-step scenario of the specification's end-to-end properties: a shell step, a
  metric check guarded by \<open>latency <= 100\<close>, a shell step.
\<close>

definition ex_slo :: SLOExpectation where
  "ex_slo = \<lparr>name = JStr ''latency'', comparison = ''<='', threshold = Finite 100\<rparr>"

definition ex_slo_ge :: SLOExpectation where
  "ex_slo_ge = \<lparr>name = JStr ''availability'', comparison = ''>='', threshold = Finite 100\<rparr>"

definition ex_shell_step :: "string \<Rightarrow> string \<Rightarrow> ChaosStep" where
  "ex_shell_step i c =
     \<lparr>step_id = JStr i, action = JStr ''shell'', command = JStr c, query = JNull,
      rollback = JNull, expected_slo = None, observation = JNull\<rparr>"

definition ex_metric_step :: "SLOExpectation \<Rightarrow> ChaosStep" where
  "ex_metric_step slo =
     \<lparr>step_id = JStr ''verify'', action = JStr ''check-metric'', command = JNull,
      query = JStr ''q1'', rollback = JNull, expected_slo = Some slo, observation = JNull\<rparr>"

definition ex_scenario :: ChaosScenario where
  "ex_scenario =
     \<lparr>scenario_id = JStr ''demo'', title = JStr ''Demo'', description = JStr ''d'',
      impact = JStr ''none'', steady_state_check = JObj [],
      steps = [ex_shell_step ''inject'' ''echo ok'', ex_metric_step ex_slo,
               ex_shell_step ''finish'' ''echo done'']\<rparr>"

definition ex_catalog :: "string \<Rightarrow> ChaosScenario option" where
  "ex_catalog = Map.empty(''demo'' \<mapsto> ex_scenario)"

text \<open>Collaborators: every command prints \<open>ok\<close>, every metric query answers \<open>v\<close>.\<close>

definition ex_shell :: shell where
  "ex_shell trace c = Inr (''ok'', [])"

definition ex_http :: "real \<Rightarrow> http" where
  "ex_http v trace url q = Inr (Some (Finite v))"

definition ex_fmt :: "json \<Rightarrow> string" where
  "ex_fmt v = (case v of JStr s \<Rightarrow> s | other \<Rightarrow> ''?'')"

definition ex_describe :: "exc \<Rightarrow> string" where
  "ex_describe e = (case e of AssertionError_slo i n v c t \<Rightarrow> ''slo'' | other \<Rightarrow> ''error'')"

definition ex_now :: datetime where
  "ex_now = \<lparr>year = 2026, month = 1, day = 2, hour = 3, minute = 4, second = 5,
             microsecond = 0\<rparr>"

text \<open>
  An empty store in which every name without \<open>/\<close> can be written (\<open>RUN_DIR\<close> has no
  directory below it), and one that refuses every write.
\<close>

definition ex_world :: world where
  "ex_world = \<lparr>files = Map.empty, writable = (\<lambda>p. CHR ''/'' \<notin> set p), effects = []\<rparr>"

definition ex_readonly_world :: world where
  "ex_readonly_world = \<lparr>files = Map.empty, writable = (\<lambda>p. False), effects = []\<rparr>"

text \<open>Stand-ins for \<open>textwrap.dedent\<close> and \<open>str.strip\<close> that change nothing.\<close>

definition ex_keep :: "string \<Rightarrow> string" where
  "ex_keep s = s"

text \<open>A stand-in for the builtin \<open>float\<close>: numbers convert, anything else raises.\<close>

definition ex_to_float :: "json \<Rightarrow> exc + pyfloat" where
  "ex_to_float v = (case py_num v of None \<Rightarrow> Inl TypeError | Some f \<Rightarrow> Inr f)"

text \<open>The lines of a replay that start a step.\<close>

definition is_StepLine :: "printed \<Rightarrow> bool" where
  "is_StepLine x = (case x of StepLine i a s \<Rightarrow> True | other \<Rightarrow> False)"

text \<open>A sealed record of a dry run with one shell step, as the recorder writes it.\<close>

definition ex_record :: Payload where
  "ex_record =
     \<lparr>p_scenario_id = JStr ''demo'', p_scenario_title = JStr ''Demo'',
      p_started_at = ''20260102T030405Z'', p_note = Some ''game day'', p_dry_run = True,
      p_steps = [\<lparr>r_step_id = JStr ''inject'', r_action = JStr ''shell'',
                  r_status = JStr ''skipped'',
                  r_detail = [(''status'', JStr ''skipped''), (''observation'', JNull),
                              (''command'', JStr ''echo ok''),
                              (''output'', JStr dry_run_marker)]\<rparr>],
      p_failed = None\<rparr>"

text \<open>
  A scenario definition whose steps break the invariants of a step: a shell step without
  command, a metric check without query, an action that is not supported.
\<close>

definition ex_invalid_definition :: dict where
  "ex_invalid_definition =
     [(''id'', JStr ''broken''), (''title'', JStr ''Broken''), (''description'', JStr ''d''),
      (''impact'', JStr ''none''),
      (''steps'', JArr [JObj [(''id'', JStr ''a''), (''action'', JStr ''shell'')],
                        JObj [(''id'', JStr ''b''), (''action'', JStr ''check-metric'')],
                        JObj [(''id'', JStr ''c''), (''action'', JStr ''http'')]])]"

text \<open>
  Two runs of the example scenario that start within one second, with the same note: a
  dry run, and half a second later a real run in the world the first one left.
\<close>

definition ex_first_run :: "(exc + string) \<times> world" where
  "ex_first_run =
     run ex_shell (ex_http 80) ex_fmt ex_describe ex_catalog (Some ''http://m'')
       ''demo'' True None ex_now ex_world"

definition ex_second_run :: "(exc + string) \<times> world" where
  "ex_second_run =
     run ex_shell (ex_http 80) ex_fmt ex_describe ex_catalog (Some ''http://m'')
       ''demo'' False None (ex_now\<lparr>microsecond := 500000\<rparr>) (snd ex_first_run)"

text \<open>
  A run of the example scenario in which the metric check breaks its SLO, started with a
  note that holds a \<open>/\<close>.
\<close>

definition ex_slash_run :: "(exc + string) \<times> world" where
  "ex_slash_run =
     run ex_shell (ex_http 150) ex_fmt ex_describe ex_catalog (Some ''http://m'')
       ''demo'' False (Some ''a/b'') ex_now ex_world"

text \<open>A scenario definition whose second step binds \<open>expected_slo\<close> to an empty dictionary.\<close>

definition ex_falsy_slo_definition :: dict where
  "ex_falsy_slo_definition =
     [(''id'', JStr ''demo''), (''title'', JStr ''Demo''), (''description'', JStr ''d''),
      (''impact'', JStr ''none''),
      (''steps'', JArr [JObj [(''id'', JStr ''inject''), (''action'', JStr ''shell''),
                              (''command'', JStr ''echo ok'')],
                        JObj [(''id'', JStr ''verify''), (''action'', JStr ''check-metric''),
                              (''query'', JStr ''q1''), (''expected_slo'', JObj [])]])]"

section \<open>Timestamps\<close>

text \<open>
  The values \<open>datetime.utcnow()\<close> can return, for the years that \<open>%Y\<close> prints with four
  digits, and the relation of two instants that agree up to the second.
\<close>

definition valid_datetime :: "datetime \<Rightarrow> bool" where
  "valid_datetime d =
     (1000 \<le> year d \<and> year d \<le> 9999 \<and> 1 \<le> month d \<and> month d \<le> 12 \<and>
      1 \<le> day d \<and> day d \<le> 31 \<and> hour d < 24 \<and> minute d < 60 \<and> second d < 60 \<and>
      microsecond d < 1000000)"

definition same_second :: "datetime \<Rightarrow> datetime \<Rightarrow> bool" where
  "same_second a b =
     (year a = year b \<and> month a = month b \<and> day a = day b \<and>
      hour a = hour b \<and> minute a = minute b \<and> second a = second b)"

section \<open>Properties: helper lemmas\<close>

lemma float_eq_le: "float_eq a b \<Longrightarrow> float_le a b"
  by (cases a; cases b) (auto simp: float_eq_def)

lemma float_eq_ge: "float_eq a b \<Longrightarrow> float_ge a b"
  by (cases a; cases b) (auto simp: float_eq_def float_ge_def)

text \<open>
  After a seal call the recorder is sealed, or its file cannot be written; in either
  state a further call changes nothing but the payload in memory.
\<close>

lemma seal_call_settles:
  "finalized (fst (seal_call rw c)) \<or>
   \<not> writable (snd (seal_call rw c)) (file_path (fst (seal_call rw c)))"
  by (cases rw; cases c) (simp_all add: finalize_def abort_def emit_def)

lemma seal_call_noop:
  "finalized (fst rw) \<or> \<not> writable (snd rw) (file_path (fst rw)) \<Longrightarrow>
     snd (seal_call rw c) = snd rw \<and>
     file_path (fst (seal_call rw c)) = file_path (fst rw) \<and>
     finalized (fst (seal_call rw c)) = finalized (fst rw)"
  by (cases rw; cases c) (auto simp: finalize_def abort_def)

lemma seal_calls_noop:
  "finalized (fst rw) \<or> \<not> writable (snd rw) (file_path (fst rw)) \<Longrightarrow>
     snd (seal_calls rw cs) = snd rw"
proof (induction cs arbitrary: rw)
  case Nil
  then show ?case by (simp add: seal_calls_def)
next
  case (Cons c cs)
  note n = seal_call_noop[OF Cons.prems, of c]
  have "finalized (fst (seal_call rw c)) \<or>
        \<not> writable (snd (seal_call rw c)) (file_path (fst (seal_call rw c)))"
    by (rule seal_call_settles)
  from Cons.IH[OF this] have "snd (seal_calls (seal_call rw c) cs) = snd (seal_call rw c)" .
  then show ?case using n by (simp add: seal_calls_def)
qed

lemma writes_seal_call:
  "writes (snd (seal_call (r, w) c)) =
     writes w + (if finalized r \<or> \<not> writable w (file_path r) then 0 else 1)"
  by (cases c) (simp_all add: finalize_def abort_def writes_def emit_def)

lemma fetch_value_store:
  "files (snd (fetch_value net endpoint q w)) = files w \<and>
   writable (snd (fetch_value net endpoint q w)) = writable w"
  by (auto simp: fetch_value_def emit_def split: option.splits)

lemma execute_step_store:
  "files (snd (execute_step sh net endpoint step dr w)) = files w \<and>
   writable (snd (execute_step sh net endpoint step dr w)) = writable w"
proof -
  note f = fetch_value_store[of net endpoint "query step" w]
  then show ?thesis
    by (auto simp: execute_step_def Let_def emit_def split: sum.splits prod.splits option.splits)
qed

lemma run_steps_append:
  "run_steps sh net endpoint dr (xs @ ys) r w =
     (case run_steps sh net endpoint dr xs r w of
        (Inr u, r1, w1) \<Rightarrow> run_steps sh net endpoint dr ys r1 w1
      | (Inl e, r1, w1) \<Rightarrow> (Inl e, r1, w1))"
  by (induction xs arbitrary: r w)
     (auto split: prod.splits sum.splits slo_exit.splits option.splits)

lemma run_steps_shape:
  "run_steps sh net endpoint dr ss r w = (res, r', w') \<Longrightarrow>
     \<exists>entries. r' = r\<lparr>payload := (payload r)\<lparr>p_steps := p_steps (payload r) @ entries\<rparr>\<rparr>
       \<and> files w' = files w \<and> writable w' = writable w
       \<and> length entries \<le> length ss
       \<and> map r_step_id entries = map step_id (take (length entries) ss)
       \<and> map r_action entries = map action (take (length entries) ss)
       \<and> (case res of Inr u \<Rightarrow> length entries = length ss | Inl e \<Rightarrow> length entries < length ss)"
proof (induction ss arbitrary: r w)
  case Nil
  then show ?case by auto
next
  case (Cons s ss)
  obtain x w1 where ex: "execute_step sh net endpoint s dr w = (x, w1)"
    by (cases "execute_step sh net endpoint s dr w")
  have fw: "files w1 = files w" "writable w1 = writable w"
    using execute_step_store[of sh net endpoint s dr w] ex by simp_all
  show ?case
  proof (cases x)
    case (Inl e)
    with Cons.prems ex fw show ?thesis by (intro exI[of _ "[]"]) auto
  next
    case (Inr result)
    show ?thesis
    proof (cases "assert_slo s result")
      case (Raises e rep)
      with Cons.prems ex fw Inr show ?thesis by (intro exI[of _ "[]"]) auto
    next
      case (Returns rep)
      show ?thesis
      proof (cases "map_of result ''status''")
        case None
        with Cons.prems ex fw Inr Returns show ?thesis by (intro exI[of _ "[]"]) auto
      next
        case (Some st)
        let ?r1 = "append_step r s st (dict_merge result rep)"
        let ?en = "\<lparr>r_step_id = step_id s, r_action = action s, r_status = st,
                     r_detail = dict_merge result rep\<rparr>"
        from Cons.prems ex Inr Returns Some
        have "run_steps sh net endpoint dr ss ?r1 w1 = (res, r', w')" by simp
        from Cons.IH[OF this] obtain entries where
          e: "r' = ?r1\<lparr>payload := (payload ?r1)\<lparr>p_steps := p_steps (payload ?r1) @ entries\<rparr>\<rparr>"
             "files w' = files w1" "writable w' = writable w1" "length entries \<le> length ss"
             "map r_step_id entries = map step_id (take (length entries) ss)"
             "map r_action entries = map action (take (length entries) ss)"
             "(case res of Inr u \<Rightarrow> length entries = length ss | Inl e \<Rightarrow> length entries < length ss)"
          by blast
        show ?thesis
          using e fw
          by (intro exI[of _ "?en # entries"]) (auto simp: append_step_def split: sum.splits)
      qed
    qed
  qed
qed

lemma init_fields:
  "finalized (ChaosRunRecorder_init fmt now scn nt dr) = False"
  "p_steps (payload (ChaosRunRecorder_init fmt now scn nt dr)) = []"
  "p_failed (payload (ChaosRunRecorder_init fmt now scn nt dr)) = None"
  by (simp_all add: ChaosRunRecorder_init_def Let_def)

lemmas ex_defs = ex_catalog_def ex_scenario_def ex_shell_step_def ex_metric_step_def ex_slo_def
  ex_shell_def ex_http_def ex_fmt_def ex_describe_def ex_now_def ex_world_def

lemmas run_defs = run_def run_handler_def show_scenario_def execute_step_def fetch_value_def
  assert_slo_def dict_get_def emit_def append_step_def finalize_def abort_def
  ChaosRunRecorder_init_def strftime_def pad2_def pad4_def digit_def float_ge_def Let_def

lemma file_path_init:
  "file_path (ChaosRunRecorder_init fmt now scn nt d) =
     strftime now @ ''_'' @ fmt (scenario_id scn) @
     (case nt of None \<Rightarrow> [] | Some n \<Rightarrow> if n \<noteq> [] then ''_'' @ replace_spaces n else []) @ ''.json''"
  by (cases nt) (auto simp: ChaosRunRecorder_init_def Let_def replace_spaces_def)

lemma digit_eq: "digit a = digit b \<longleftrightarrow> a mod 10 = b mod 10"
proof -
  have d: "distinct ''0123456789''" by simp
  have l: "a mod 10 < length ''0123456789''" "b mod 10 < length ''0123456789''" by simp_all
  show ?thesis unfolding digit_def by (rule nth_eq_iff_index_eq[OF d l])
qed

lemma div_mod_10_eq: "(a::nat) div 10 = b div 10 \<Longrightarrow> a mod 10 = b mod 10 \<Longrightarrow> a = b"
  by (metis div_mult_mod_eq)

lemma pad2_eq:
  assumes "a < 100" "b < 100"
  shows "pad2 a = pad2 b \<longleftrightarrow> a = b"
proof
  assume "pad2 a = pad2 b"
  then have h: "(a div 10) mod 10 = (b div 10) mod 10" "a mod 10 = b mod 10"
    by (simp_all add: pad2_def digit_eq)
  have "a div 10 < 10" "b div 10 < 10" using assms by simp_all
  then have "a div 10 = b div 10" using h(1) by simp
  then show "a = b" using h(2) by (rule div_mod_10_eq)
qed simp

lemma pad4_eq:
  assumes "a < 10000" "b < 10000"
  shows "pad4 a = pad4 b \<longleftrightarrow> a = b"
proof
  assume "pad4 a = pad4 b"
  then have h: "(a div 1000) mod 10 = (b div 1000) mod 10" "(a div 100) mod 10 = (b div 100) mod 10"
               "(a div 10) mod 10 = (b div 10) mod 10" "a mod 10 = b mod 10"
    by (simp_all add: pad4_def digit_eq)
  have "a div 1000 < 10" "b div 1000 < 10" using assms by simp_all
  then have e3: "a div 1000 = b div 1000" using h(1) by simp
  have "a div 100 div 10 = b div 100 div 10" using e3 by (simp add: div_mult2_eq[symmetric])
  then have e2: "a div 100 = b div 100" using h(2) by (rule div_mod_10_eq)
  have "a div 10 div 10 = b div 10 div 10" using e2 by (simp add: div_mult2_eq[symmetric])
  then have e1: "a div 10 = b div 10" using h(3) by (rule div_mod_10_eq)
  then show "a = b" using h(4) by (rule div_mod_10_eq)
qed simp

lemma strftime_eq:
  assumes "valid_datetime a" "valid_datetime b"
  shows "strftime a = strftime b \<longleftrightarrow> same_second a b"
proof -
  have "strftime a = strftime b \<longleftrightarrow>
          pad4 (year a) = pad4 (year b) \<and> pad2 (month a) = pad2 (month b) \<and>
          pad2 (day a) = pad2 (day b) \<and> pad2 (hour a) = pad2 (hour b) \<and>
          pad2 (minute a) = pad2 (minute b) \<and> pad2 (second a) = pad2 (second b)"
    unfolding strftime_def pad2_def pad4_def by simp
  also have "\<dots> \<longleftrightarrow> same_second a b"
    using assms by (simp add: valid_datetime_def same_second_def pad2_eq pad4_eq)
  finally show ?thesis .
qed


lemma steps_from_raw_fails:
  "raw \<in> set raws \<Longrightarrow> step_from_raw to_float raw = Inl e \<Longrightarrow>
     \<exists>e'. steps_from_raw to_float raws = Inl e'"
  by (induction raws) (auto simp: bind_exc_def split: sum.splits)

lemma from_dict_no_steps:
  "map_of data ''steps'' = Some (JArr []) \<Longrightarrow>
     from_dict to_float data =
       (case map_of data ''id'' of None \<Rightarrow> Inl (KeyError ''id'') | Some i \<Rightarrow> Inl (ValueError_no_steps i))"
  by (simp add: from_dict_def bind_exc_def split: option.splits)

lemma from_dict_bad_step:
  assumes "map_of data ''steps'' = Some (JArr raws)" "raw \<in> set raws"
          "step_from_raw to_float raw = Inl e"
  shows "\<exists>e'. from_dict to_float data = Inl e'"
proof -
  from steps_from_raw_fails[OF assms(2,3)] obtain e' where "steps_from_raw to_float raws = Inl e'"
    by blast
  then show ?thesis using assms(1) by (simp add: from_dict_def bind_exc_def)
qed

lemma slo_from_raw_bad_comparison:
  assumes "subscript x ''comparison'' \<noteq> Inr (JStr ''<='')"
          "subscript x ''comparison'' \<noteq> Inr (JStr ''>='')"
  shows "\<exists>e. slo_from_raw to_float x = Inl e"
proof (cases "subscript x ''comparison''")
  case (Inl e)
  then show ?thesis by (simp add: slo_from_raw_def bind_exc_def split: sum.splits)
next
  case (Inr c)
  have "\<exists>e. SLOExpectation_init n c f = Inl e" for n f
    using assms Inr by (cases c) (auto simp: SLOExpectation_init_def)
  then show ?thesis using Inr
    by (auto simp: slo_from_raw_def bind_exc_def split: sum.splits)
qed

lemma step_from_raw_bad_comparison:
  assumes "map_of kvs ''expected_slo'' = Some x" "truthy x"
          "subscript x ''comparison'' \<noteq> Inr (JStr ''<='')"
          "subscript x ''comparison'' \<noteq> Inr (JStr ''>='')"
  shows "\<exists>e. step_from_raw to_float (JObj kvs) = Inl e"
proof -
  from slo_from_raw_bad_comparison[OF assms(3,4)] obtain e where "slo_from_raw to_float x = Inl e"
    by blast
  then show ?thesis using assms(1,2)
    by (simp add: step_from_raw_def slo_of_step_def bind_exc_def)
qed

lemma step_from_raw_plain:
  "map_of kvs ''expected_slo'' = None \<Longrightarrow> map_of kvs ''id'' = Some i \<Longrightarrow>
   map_of kvs ''action'' = Some a \<Longrightarrow>
     step_from_raw to_float (JObj kvs) =
       Inr \<lparr>step_id = i, action = a,
            command = dict_get kvs ''command'', query = dict_get kvs ''query'',
            rollback = dict_get kvs ''rollback'', expected_slo = None,
            observation = dict_get kvs ''observation''\<rparr>"
  by (simp add: step_from_raw_def slo_of_step_def bind_exc_def)

lemma execute_step_guards:
  "action step = JStr ''shell'' \<and> \<not> truthy (command step) \<longrightarrow>
     execute_step sh net endpoint step dr w = (Inl (ValueError_command (step_id step)), w)"
  "action step = JStr ''check-metric'' \<and> \<not> truthy (query step) \<longrightarrow>
     execute_step sh net endpoint step dr w = (Inl (ValueError_query (step_id step)), w)"
  "action step \<noteq> JStr ''shell'' \<and> action step \<noteq> JStr ''check-metric'' \<longrightarrow>
     execute_step sh net endpoint step dr w = (Inl (ValueError_action (action step)), w)"
  by (simp_all add: execute_step_def)

lemma filter_StepLine_render_step:
  "filter is_StepLine (render_step s) = [StepLine (r_step_id s) (r_action s) (r_status s)]"
  by (simp add: render_step_def is_StepLine_def filter_map comp_def)

lemma filter_StepLine_body:
  "filter is_StepLine (concat (map render_step ss)) =
     map (\<lambda>s. StepLine (r_step_id s) (r_action s) (r_status s)) ss"
  by (induction ss) (simp_all add: filter_StepLine_render_step)

lemma detail_in_body:
  "s \<in> set ss \<Longrightarrow> (k, v) \<in> set (r_detail s) \<Longrightarrow> k \<noteq> ''status'' \<Longrightarrow>
     DetailLine k v \<in> set (concat (map render_step ss))"
  by (force simp: render_step_def)

lemma no_status_in_body: "DetailLine ''status'' v \<notin> set (concat (map render_step ss))"
  by (auto simp: render_step_def)

lemma or_none_cases:
  "or_none x = (if x = None \<or> x = Some [] then none_label else the x)"
  by (cases x) (auto simp: or_none_def)


lemma steps_from_raw_append:
  "steps_from_raw to_float (xs @ ys) =
     bind_exc (steps_from_raw to_float xs) (\<lambda>a.
     bind_exc (steps_from_raw to_float ys) (\<lambda>b. Inr (a @ b)))"
  by (induction xs) (auto simp: bind_exc_def split: sum.splits)

lemma step_from_raw_falsy:
  "map_of kvs ''expected_slo'' = Some e \<Longrightarrow> \<not> truthy e \<Longrightarrow>
   map_of kvs ''id'' = Some i \<Longrightarrow> map_of kvs ''action'' = Some a \<Longrightarrow>
     step_from_raw to_float (JObj kvs) =
       Inr \<lparr>step_id = i, action = a,
            command = dict_get kvs ''command'', query = dict_get kvs ''query'',
            rollback = dict_get kvs ''rollback'', expected_slo = None,
            observation = dict_get kvs ''observation''\<rparr>"
  by (simp add: step_from_raw_def slo_of_step_def bind_exc_def)

section \<open>Properties: the claims\<close>

text \<open>
  C1. For a step with an SLO expectation and a result that holds the metric value \<open>V\<close>:
  with comparison \<open><=\<close> the evaluator passes (returns the report with status \<open>met\<close>)
  exactly when \<open>V <= T\<close>, and otherwise raises \<open>AssertionError\<close> with the report marked
  \<open>violated\<close>; with \<open>>=\<close> the same for \<open>V >= T\<close>; and \<open>V == T\<close> passes in both directions.
  The comparisons are those of Python floats.
\<close>

theorem slo_comparison_decides:
  assumes "expected_slo step = Some slo"
      and "dict_get result ''metric_value'' = JFloat V"
  shows "(comparison slo = ''<='' \<longrightarrow>
            (slo_met (assert_slo step result) \<longleftrightarrow> float_le V (threshold slo)) \<and>
            (slo_violated (assert_slo step result) \<longleftrightarrow> \<not> float_le V (threshold slo)))
       \<and> (comparison slo = ''>='' \<longrightarrow>
            (slo_met (assert_slo step result) \<longleftrightarrow> float_ge V (threshold slo)) \<and>
            (slo_violated (assert_slo step result) \<longleftrightarrow> \<not> float_ge V (threshold slo)))
       \<and> ((comparison slo = ''<='' \<or> comparison slo = ''>='') \<and> float_eq V (threshold slo) \<longrightarrow>
            slo_met (assert_slo step result))"
  using assms float_eq_le[of V "threshold slo"] float_eq_ge[of V "threshold slo"]
  by (auto simp: assert_slo_def slo_met_def slo_violated_def is_AssertionError_def Let_def)

theorem slo_comparison_decides_witness:
  "slo_met (assert_slo (ex_metric_step ex_slo) [(''metric_value'', JFloat (Finite 100))])
   \<and> slo_violated (assert_slo (ex_metric_step ex_slo) [(''metric_value'', JFloat (Finite 150))])
   \<and> slo_met (assert_slo (ex_metric_step ex_slo_ge) [(''metric_value'', JFloat (Finite 100))])
   \<and> slo_violated (assert_slo (ex_metric_step ex_slo_ge) [(''metric_value'', JFloat (Finite 80))])"
proof -
  have s1: "expected_slo (ex_metric_step ex_slo) = Some ex_slo"
   and s2: "expected_slo (ex_metric_step ex_slo_ge) = Some ex_slo_ge"
    by (simp_all add: ex_metric_step_def)
  have v: "dict_get [(''metric_value'', JFloat (Finite x))] ''metric_value'' = JFloat (Finite x)" for x
    by (simp add: dict_get_def)
  show ?thesis
    using slo_comparison_decides[OF s1 v, of 100] slo_comparison_decides[OF s1 v, of 150]
          slo_comparison_decides[OF s2 v, of 100] slo_comparison_decides[OF s2 v, of 80]
    by (simp add: ex_slo_def ex_slo_ge_def float_ge_def float_eq_def)
qed

text \<open>
  C4. Once a first \<open>finalize\<close> or \<open>abort\<close> has been called on a recorder, any later
  sequence of \<open>finalize\<close> and \<open>abort\<close> calls leaves the world as the first call left it:
  the stored artifacts are unchanged and nothing more is written. Over all the calls the
  artifact is written once, and not at all by a recorder that was sealed before or whose
  file cannot be written.
\<close>

theorem sealing_is_idempotent:
  "snd (seal_calls (seal_call (r, w) first) later) = snd (seal_call (r, w) first)
   \<and> files (snd (seal_calls (seal_call (r, w) first) later)) = files (snd (seal_call (r, w) first))
   \<and> writes (snd (seal_calls (r, w) (first # later))) =
       writes w + (if finalized r \<or> \<not> writable w (file_path r) then 0 else 1)
   \<and> writes (snd (seal_calls (r, w) (first # later))) \<le> writes w + 1"
proof -
  have a: "snd (seal_calls (seal_call (r, w) first) later) = snd (seal_call (r, w) first)"
    by (rule seal_calls_noop) (rule seal_call_settles)
  have "seal_calls (r, w) (first # later) = seal_calls (seal_call (r, w) first) later"
    by (simp add: seal_calls_def)
  then show ?thesis using a writes_seal_call[of r w first] by simp
qed

text \<open>
  C5. For a step with an SLO expectation whose result holds no metric value (the key is
  missing, as for a shell step, or its value is \<open>None\<close>), the evaluator returns the report
  with status \<open>pending\<close>: it does not raise, and the status is neither \<open>met\<close> nor
  \<open>violated\<close>. The run goes on: when such a result is the executor's, the loop appends
  the step and continues with the steps that follow.
\<close>

theorem slo_pending_without_metric:
  assumes "expected_slo step = Some slo"
      and "dict_get result ''metric_value'' = JNull"
  shows "slo_pending (assert_slo step result)
       \<and> \<not> slo_met (assert_slo step result)
       \<and> \<not> slo_violated (assert_slo step result)
       \<and> (\<exists>report. assert_slo step result = Returns report
             \<and> (execute_step sh net endpoint step dr w = (Inr result, w') \<and>
                  map_of result ''status'' = Some st \<longrightarrow>
                  run_steps sh net endpoint dr (step # rest) r w =
                    run_steps sh net endpoint dr rest
                      (append_step r step st (dict_merge result report)) w'))"
  using assms
  by (auto simp: assert_slo_def slo_met_def slo_violated_def slo_pending_def Let_def)

theorem slo_pending_without_metric_witness:
  "slo_pending (assert_slo (ex_metric_step ex_slo) [(''status'', JStr ''skipped'')])
   \<and> slo_pending (assert_slo (ex_metric_step ex_slo)
        [(''status'', JStr ''skipped''), (''observation'', JNull),
         (''metric_query'', JStr ''q1''), (''metric_value'', JNull)])
   \<and> fst (run_steps ex_shell (ex_http 80) None False [ex_metric_step ex_slo]
             (ChaosRunRecorder_init ex_fmt ex_now ex_scenario None False) ex_world) = Inr ()"
proof -
  let ?res = "[(''status'', JStr ''skipped''), (''observation'', JNull),
               (''metric_query'', JStr ''q1''), (''metric_value'', JNull)]"
  have s: "expected_slo (ex_metric_step ex_slo) = Some ex_slo"
    by (simp add: ex_metric_step_def)
  have a: "dict_get [(''status'', JStr ''skipped'')] ''metric_value'' = JNull"
    by (simp add: dict_get_def)
  have b: "dict_get ?res ''metric_value'' = JNull"
    by (simp add: dict_get_def)
  have x: "execute_step ex_shell (ex_http 80) None (ex_metric_step ex_slo) False ex_world
             = (Inr ?res, ex_world)"
    by (simp add: execute_step_def fetch_value_def ex_metric_step_def)
  have st: "map_of ?res ''status'' = Some (JStr ''skipped'')" by simp
  from slo_pending_without_metric[OF s b, of ex_shell "ex_http 80" None False ex_world ex_world
         "JStr ''skipped''" "[]" "ChaosRunRecorder_init ex_fmt ex_now ex_scenario None False"]
  obtain report where
    "run_steps ex_shell (ex_http 80) None False [ex_metric_step ex_slo]
       (ChaosRunRecorder_init ex_fmt ex_now ex_scenario None False) ex_world =
     run_steps ex_shell (ex_http 80) None False []
       (append_step (ChaosRunRecorder_init ex_fmt ex_now ex_scenario None False)
          (ex_metric_step ex_slo) (JStr ''skipped'') (dict_merge ?res report)) ex_world"
    using x st by blast
  then have c: "fst (run_steps ex_shell (ex_http 80) None False [ex_metric_step ex_slo]
             (ChaosRunRecorder_init ex_fmt ex_now ex_scenario None False) ex_world) = Inr ()"
    by simp
  show ?thesis
    using slo_pending_without_metric[OF s a, of ex_shell "ex_http 80" None False ex_world ex_world
            "JStr ''skipped''" "[]" "ChaosRunRecorder_init ex_fmt ex_now ex_scenario None False"]
          slo_pending_without_metric[OF s b, of ex_shell "ex_http 80" None False ex_world ex_world
            "JStr ''skipped''" "[]" "ChaosRunRecorder_init ex_fmt ex_now ex_scenario None False"]
          c
    by simp
qed

text \<open>
  C2. When \<open>run\<close> of a scenario of the catalog returns a path (no exception), the document
  stored under that path has exactly one entry per step of the scenario, with the steps'
  ids and actions in the scenario's order, and no \<open>failed\<close> field; the path is the
  recorder's, and writing the document (\<open>finalize\<close>) is the last thing the run did.
\<close>

theorem run_success_records_every_step:
  assumes "scenarios sid = Some scn"
      and "fst (run sh net fmt describe scenarios endpoint sid dr nt now w) = Inr path"
  shows "\<exists>p. files (snd (run sh net fmt describe scenarios endpoint sid dr nt now w)) path = Some p
           \<and> length (p_steps p) = length (steps scn)
           \<and> map r_step_id (p_steps p) = map step_id (steps scn)
           \<and> map r_action (p_steps p) = map action (steps scn)
           \<and> p_failed p = None
           \<and> path = file_path (ChaosRunRecorder_init fmt now scn nt dr)
           \<and> last (effects (snd (run sh net fmt describe scenarios endpoint sid dr nt now w)))
               = WriteFile path"
proof -
  let ?r0 = "ChaosRunRecorder_init fmt now scn nt dr"
  let ?run = "run sh net fmt describe scenarios endpoint sid dr nt now w"
  obtain res r1 w1 where rs: "run_steps sh net endpoint dr (steps scn) ?r0 w = (res, r1, w1)"
    by (cases "run_steps sh net endpoint dr (steps scn) ?r0 w")
  have handler: "fst (run_handler describe e r' w') \<noteq> Inr path" for e r' w'
    by (simp add: run_handler_def split: prod.splits sum.splits)
  from assms rs handler obtain u where res: "res = Inr u"
    by (cases res) (auto simp: run_def show_scenario_def Let_def)
  from run_steps_shape[OF rs] res obtain entries where
    e: "r1 = ?r0\<lparr>payload := (payload ?r0)\<lparr>p_steps := p_steps (payload ?r0) @ entries\<rparr>\<rparr>"
       "length entries = length (steps scn)"
       "map r_step_id entries = map step_id (take (length entries) (steps scn))"
       "map r_action entries = map action (take (length entries) (steps scn))"
    by auto
  have nf: "\<not> finalized r1" using e(1) by (simp add: init_fields)
  have wr: "writable w1 (file_path r1)"
  proof (rule ccontr)
    assume "\<not> writable w1 (file_path r1)"
    then have "?run = run_handler describe (OSError (file_path r1)) r1 w1"
      using assms(1) rs res nf by (simp add: run_def show_scenario_def Let_def finalize_def)
    then show False using assms(2) handler by simp
  qed
  have run_eq: "?run = (Inr (file_path r1),
                        emit (WriteFile (file_path r1))
                          (w1\<lparr>files := (files w1)(file_path r1 \<mapsto> payload r1)\<rparr>))"
    using assms(1) rs res nf wr by (simp add: run_def show_scenario_def Let_def finalize_def)
  then have path: "path = file_path r1" using assms(2) by simp
  show ?thesis
    using e path
    by (intro exI[of _ "payload r1"]) (simp add: run_eq emit_def init_fields)
qed

theorem run_success_records_every_step_witness:
  "\<exists>p. files (snd (run ex_shell (ex_http 80) ex_fmt ex_describe ex_catalog (Some ''http://m'')
                      ''demo'' False None ex_now ex_world)) ''20260102T030405Z_demo.json'' = Some p
       \<and> length (p_steps p) = 3
       \<and> map r_step_id (p_steps p) = [JStr ''inject'', JStr ''verify'', JStr ''finish'']
       \<and> p_failed p = None"
proof -
  have c: "ex_catalog ''demo'' = Some ex_scenario" by (simp add: ex_catalog_def)
  have r: "fst (run ex_shell (ex_http 80) ex_fmt ex_describe ex_catalog (Some ''http://m'')
                  ''demo'' False None ex_now ex_world) = Inr ''20260102T030405Z_demo.json''"
    by (simp add: run_defs ex_defs)
  from run_success_records_every_step[where scenarios = ex_catalog and sid = "''demo''", OF c r] obtain p where
    "files (snd (run ex_shell (ex_http 80) ex_fmt ex_describe ex_catalog (Some ''http://m'')
                   ''demo'' False None ex_now ex_world)) ''20260102T030405Z_demo.json'' = Some p"
    "length (p_steps p) = length (steps ex_scenario)"
    "map r_step_id (p_steps p) = map step_id (steps ex_scenario)"
    "p_failed p = None"
    by blast
  then show ?thesis
    by (intro exI[of _ p]) (simp add: ex_scenario_def ex_shell_step_def ex_metric_step_def)
qed

text \<open>
  C3, where the recorder's file can be written. Let the steps \<open>before\<close> complete and let
  the next step raise \<open>e\<close>, in the executor or in the SLO evaluator. Then \<open>run\<close> raises
  \<open>e\<close>, and the world it leaves is the world after the failing step plus one write: the
  steps after it had no effect. The document written under the recorder's path holds the
  entries of the completed steps and the text of \<open>e\<close> in its \<open>failed\<close> field.
\<close>

lemma run_failure_aborts_when_writable:
  assumes "scenarios sid = Some scn"
      and "steps scn = before @ step # remaining"
      and "run_steps sh net endpoint dr before (ChaosRunRecorder_init fmt now scn nt dr) w
             = (Inr (), r1, w1)"
      and "execute_step sh net endpoint step dr w1 = (Inl e, w2)
           \<or> (\<exists>result report. execute_step sh net endpoint step dr w1 = (Inr result, w2)
                 \<and> assert_slo step result = Raises e report)"
      and "writable w (file_path (ChaosRunRecorder_init fmt now scn nt dr))"
  shows "run sh net fmt describe scenarios endpoint sid dr nt now w =
           (Inl e,
            emit (WriteFile (file_path (ChaosRunRecorder_init fmt now scn nt dr)))
              (w2\<lparr>files := (files w2)(file_path (ChaosRunRecorder_init fmt now scn nt dr) \<mapsto>
                     (payload r1)\<lparr>p_failed := Some (describe e)\<rparr>)\<rparr>))
       \<and> map r_step_id (p_steps (payload r1)) = map step_id before"
proof -
  let ?r0 = "ChaosRunRecorder_init fmt now scn nt dr"
  have one: "run_steps sh net endpoint dr (step # remaining) r1 w1 = (Inl e, r1, w2)"
    using assms(4) by auto
  have all: "run_steps sh net endpoint dr (steps scn) ?r0 w = (Inl e, r1, w2)"
    using assms(2,3) one by (simp add: run_steps_append)
  from run_steps_shape[OF all] obtain entries where
    e: "r1 = ?r0\<lparr>payload := (payload ?r0)\<lparr>p_steps := p_steps (payload ?r0) @ entries\<rparr>\<rparr>"
       "writable w2 = writable w"
    by auto
  from run_steps_shape[OF assms(3)] obtain entries' where
    e': "r1 = ?r0\<lparr>payload := (payload ?r0)\<lparr>p_steps := p_steps (payload ?r0) @ entries'\<rparr>\<rparr>"
        "length entries' = length before"
        "map r_step_id entries' = map step_id (take (length entries') before)"
    by auto
  have nf: "\<not> finalized r1" and fp: "file_path r1 = file_path ?r0"
    using e(1) by (simp_all add: init_fields)
  have wr: "writable w2 (file_path r1)" using assms(5) e(2) fp by simp
  have run_eq: "run sh net fmt describe scenarios endpoint sid dr nt now w
                  = run_handler describe e r1 w2"
    using assms(1) all by (simp add: run_def show_scenario_def Let_def)
  have ab: "run_handler describe e r1 w2 =
              (Inl e, emit (WriteFile (file_path ?r0))
                (w2\<lparr>files := (files w2)(file_path ?r0 \<mapsto> (payload r1)\<lparr>p_failed := Some (describe e)\<rparr>)\<rparr>))"
    using nf fp wr by (simp add: run_handler_def abort_def finalize_def)
  have ids: "map r_step_id (p_steps (payload r1)) = map step_id before"
    using e' by (simp add: init_fields)
  show ?thesis
    using ids by (simp add: run_eq ab)
qed

text \<open>
  C3, at a file that cannot be opened. The note \<open>a/b\<close> puts a \<open>/\<close> into the file name.
  The metric check raises \<open>AssertionError\<close>; \<open>abort\<close> in the handler raises \<open>OSError\<close>, and
  that is what \<open>run\<close> raises. No document is stored and nothing was written. The third
  step did not run.
\<close>

theorem run_abort_fails_on_unwritable_path:
  "fst ex_slash_run = Inl (OSError ''20260102T030405Z_demo_a/b.json'')
   \<and> files (snd ex_slash_run) = Map.empty
   \<and> effects (snd ex_slash_run) = [Spawn (JStr ''echo ok''), HttpGet ''http://m'' (JStr ''q1'')]"
  by (simp add: ex_slash_run_def run_defs ex_defs replace_spaces_def)

text \<open>
  C6 (as stated, refuted). A shell step in dry-run mode does not always return status
  \<open>skipped\<close>: without a command, the executor's guard raises the configuration error first.
\<close>

theorem dry_run_shell_needs_command_counterexample:
  "fst (execute_step ex_shell (ex_http 80) None
          ((ex_shell_step ''inject'' ''echo ok'')\<lparr>command := JNull\<rparr>) True ex_world)
     = Inl (ValueError_command (JStr ''inject''))"
  by (simp add: execute_step_def ex_shell_step_def)

text \<open>
  C6 (amended). A shell step in dry-run mode leaves the world as it was: no process is
  started, whatever the step. With a non-empty command the executor returns the detail
  with status \<open>skipped\<close>, the command it did not run and the dry-run marker as output;
  with an absent or empty command it raises the configuration error.
\<close>

theorem dry_run_shell_is_skipped:
  assumes "action step = JStr ''shell''"
  shows "snd (execute_step sh net endpoint step True w) = w
       \<and> (truthy (command step) \<longrightarrow>
            fst (execute_step sh net endpoint step True w) =
              Inr [(''status'', JStr ''skipped''), (''observation'', observation step),
                   (''command'', command step), (''output'', JStr dry_run_marker)])
       \<and> (\<not> truthy (command step) \<longrightarrow>
            fst (execute_step sh net endpoint step True w) = Inl (ValueError_command (step_id step)))"
  using assms by (simp add: execute_step_def Let_def)

theorem dry_run_shell_is_skipped_witness:
  "execute_step ex_shell (ex_http 80) None (ex_shell_step ''inject'' ''echo ok'') True ex_world
     = (Inr [(''status'', JStr ''skipped''), (''observation'', JNull),
             (''command'', JStr ''echo ok''), (''output'', JStr dry_run_marker)], ex_world)"
proof -
  have a: "action (ex_shell_step ''inject'' ''echo ok'') = JStr ''shell''"
    by (simp add: ex_shell_step_def)
  show ?thesis
    using dry_run_shell_is_skipped[OF a, of ex_shell "ex_http 80" None ex_world]
    by (simp add: ex_shell_step_def prod_eq_iff)
qed

text \<open>
  C9. Two runs of the example scenario with the same note, started half a second apart
  within one second: both return the same path; after the second run the store holds
  the second run's record under it, the first run's record is gone, and the file was
  written twice.
\<close>

theorem same_second_runs_overwrite:
  "fst ex_first_run = Inr ''20260102T030405Z_demo.json''
   \<and> fst ex_second_run = Inr ''20260102T030405Z_demo.json''
   \<and> map_option p_dry_run (files (snd ex_first_run) ''20260102T030405Z_demo.json'') = Some True
   \<and> map_option p_dry_run (files (snd ex_second_run) ''20260102T030405Z_demo.json'') = Some False
   \<and> writes (snd ex_first_run) = 1
   \<and> writes (snd ex_second_run) = 2"
proof -
  have a: "ex_first_run =
      (Inr ''20260102T030405Z_demo.json'',
       \<lparr>files = Map.empty(''20260102T030405Z_demo.json'' \<mapsto>
            payload (fst (snd (run_steps ex_shell (ex_http 80) (Some ''http://m'') True
                       (steps ex_scenario)
                       (ChaosRunRecorder_init ex_fmt ex_now ex_scenario None True) ex_world)))),
        writable = (\<lambda>p. CHR ''/'' \<notin> set p),
        effects = [HttpGet ''http://m'' (JStr ''q1''),
                   WriteFile ''20260102T030405Z_demo.json'']\<rparr>)"
    by (simp add: ex_first_run_def run_defs ex_defs)
  have b: "p_dry_run (payload (fst (snd (run_steps ex_shell (ex_http 80) (Some ''http://m'') True
                       (steps ex_scenario)
                       (ChaosRunRecorder_init ex_fmt ex_now ex_scenario None True) ex_world))))"
    by (simp add: run_defs ex_defs)
  have c: "fst ex_second_run = Inr ''20260102T030405Z_demo.json''
           \<and> map_option p_dry_run (files (snd ex_second_run) ''20260102T030405Z_demo.json'')
               = Some False
           \<and> writes (snd ex_second_run) = 2"
    unfolding ex_second_run_def a
    by (simp add: run_defs ex_defs writes_def)
  show ?thesis using c b by (simp add: a writes_def)
qed

text \<open>
  The same for any scenario and note: two clock values that differ below the second give
  one file name.
\<close>

lemma same_second_runs_collide:
  "ex_now \<noteq> ex_now\<lparr>microsecond := 500000\<rparr>
   \<and> (\<forall>fmt scn nt d.
         file_path (ChaosRunRecorder_init fmt ex_now scn nt d) =
         file_path (ChaosRunRecorder_init fmt (ex_now\<lparr>microsecond := 500000\<rparr>) scn nt d))"
  by (simp add: file_path_init strftime_def ex_now_def)

lemma storage_key_follows_timestamp:
  "(file_path (ChaosRunRecorder_init fmt now1 scn nt d) =
      file_path (ChaosRunRecorder_init fmt now2 scn nt d)
    \<longleftrightarrow> strftime now1 = strftime now2)
   \<and> (valid_datetime now1 \<and> valid_datetime now2 \<longrightarrow>
        (strftime now1 = strftime now2 \<longleftrightarrow> same_second now1 now2))"
  by (simp add: file_path_init strftime_eq)

text \<open>
  C10. In a scenario definition whose other steps construct, a step whose \<open>expected_slo\<close>
  key is bound to a falsy value (\<open>None\<close>, \<open>{}\<close>, \<open>[]\<close>, the empty string, zero, \<open>False\<close>)
  does not make \<open>from_dict\<close> raise: the scenario is constructed, with that step in its
  place and without an SLO expectation. Where the value is non-empty instead and its
  \<open>comparison\<close> is missing or not supported, \<open>from_dict\<close> raises.
\<close>

theorem falsy_expected_slo_is_dropped:
  assumes "map_of data ''steps'' = Some (JArr (pre @ JObj kvs # post))"
      and "map_of kvs ''expected_slo'' = Some e"
      and "\<not> truthy e"
      and "map_of kvs ''id'' = Some i"
      and "map_of kvs ''action'' = Some a"
      and "steps_from_raw to_float pre = Inr ps"
      and "steps_from_raw to_float post = Inr qs"
      and "map_of data ''id'' = Some si"
      and "map_of data ''title'' = Some st"
      and "map_of data ''description'' = Some sd"
      and "map_of data ''impact'' = Some sm"
  shows "from_dict to_float data =
           Inr \<lparr>scenario_id = si, title = st, description = sd, impact = sm,
                steady_state_check =
                  (case map_of data ''steady_state_check'' of None \<Rightarrow> JObj [] | Some v \<Rightarrow> v),
                steps = ps @
                  \<lparr>step_id = i, action = a,
                   command = dict_get kvs ''command'', query = dict_get kvs ''query'',
                   rollback = dict_get kvs ''rollback'', expected_slo = None,
                   observation = dict_get kvs ''observation''\<rparr> # qs\<rparr>
       \<and> (map_of data' ''steps'' = Some (JArr (pre @ JObj kvs' # post)) \<and>
            map_of kvs' ''expected_slo'' = Some x \<and> truthy x \<and>
            subscript x ''comparison'' \<noteq> Inr (JStr ''<='') \<and>
            subscript x ''comparison'' \<noteq> Inr (JStr ''>='') \<longrightarrow>
            (\<exists>err. from_dict to_float data' = Inl err))"
proof -
  let ?step = "\<lparr>step_id = i, action = a,
                 command = dict_get kvs ''command'', query = dict_get kvs ''query'',
                 rollback = dict_get kvs ''rollback'', expected_slo = None,
                 observation = dict_get kvs ''observation''\<rparr>"
  have s: "step_from_raw to_float (JObj kvs) = Inr ?step"
    using assms(2-5) by (rule step_from_raw_falsy)
  have all: "steps_from_raw to_float (pre @ JObj kvs # post) = Inr (ps @ ?step # qs)"
    using assms(6,7) s by (simp add: steps_from_raw_append bind_exc_def)
  have first: "from_dict to_float data =
           Inr \<lparr>scenario_id = si, title = st, description = sd, impact = sm,
                steady_state_check =
                  (case map_of data ''steady_state_check'' of None \<Rightarrow> JObj [] | Some v \<Rightarrow> v),
                steps = ps @ ?step # qs\<rparr>"
    using assms(1,8-11) all by (simp add: from_dict_def bind_exc_def)
  have second: "\<exists>err. from_dict to_float data' = Inl err"
    if h: "map_of data' ''steps'' = Some (JArr (pre @ JObj kvs' # post))"
          "map_of kvs' ''expected_slo'' = Some x" "truthy x"
          "subscript x ''comparison'' \<noteq> Inr (JStr ''<='')"
          "subscript x ''comparison'' \<noteq> Inr (JStr ''>='')"
  proof -
    from step_from_raw_bad_comparison[OF h(2-5)] obtain err where
      "step_from_raw to_float (JObj kvs') = Inl err" by blast
    moreover have "JObj kvs' \<in> set (pre @ JObj kvs' # post)" by simp
    ultimately show ?thesis using from_dict_bad_step[OF h(1)] by blast
  qed
  show ?thesis using first second by blast
qed

theorem falsy_expected_slo_is_dropped_witness:
  "from_dict ex_to_float ex_falsy_slo_definition =
     Inr \<lparr>scenario_id = JStr ''demo'', title = JStr ''Demo'', description = JStr ''d'',
          impact = JStr ''none'', steady_state_check = JObj [],
          steps = [ex_shell_step ''inject'' ''echo ok'',
                   \<lparr>step_id = JStr ''verify'', action = JStr ''check-metric'', command = JNull,
                    query = JStr ''q1'', rollback = JNull, expected_slo = None,
                    observation = JNull\<rparr>]\<rparr>
   \<and> (\<exists>err. from_dict ex_to_float
          [(''id'', JStr ''demo''),
           (''steps'', JArr [JObj [(''id'', JStr ''inject''), (''action'', JStr ''shell''),
                                   (''command'', JStr ''echo ok'')],
                             JObj [(''id'', JStr ''verify''), (''action'', JStr ''check-metric''),
                                   (''expected_slo'', JObj [(''name'', JStr ''latency'')])]])]
          = Inl err)"
proof -
  let ?s1 = "JObj [(''id'', JStr ''inject''), (''action'', JStr ''shell''),
                   (''command'', JStr ''echo ok'')]"
  let ?kvs = "[(''id'', JStr ''verify''), (''action'', JStr ''check-metric''),
               (''query'', JStr ''q1''), (''expected_slo'', JObj [])]"
  let ?x = "JObj [(''name'', JStr ''latency'')]"
  let ?kvs' = "[(''id'', JStr ''verify''), (''action'', JStr ''check-metric''),
                (''expected_slo'', ?x)]"
  let ?data' = "[(''id'', JStr ''demo''), (''steps'', JArr [?s1, JObj ?kvs'])]"
  have d: "map_of ex_falsy_slo_definition ''steps'' = Some (JArr ([?s1] @ JObj ?kvs # []))"
    by (simp add: ex_falsy_slo_definition_def)
  have a: "map_of ?kvs ''expected_slo'' = Some (JObj [])" by simp
  have b: "\<not> truthy (JObj [])" by simp
  have c: "map_of ?kvs ''id'' = Some (JStr ''verify'')" by simp
  have c': "map_of ?kvs ''action'' = Some (JStr ''check-metric'')" by simp
  have p: "steps_from_raw ex_to_float [?s1] = Inr [ex_shell_step ''inject'' ''echo ok'']"
    by (simp add: step_from_raw_def slo_of_step_def bind_exc_def dict_get_def ex_shell_step_def)
  have q: "steps_from_raw ex_to_float [] = Inr []" by simp
  have m: "map_of ex_falsy_slo_definition ''id'' = Some (JStr ''demo'')"
          "map_of ex_falsy_slo_definition ''title'' = Some (JStr ''Demo'')"
          "map_of ex_falsy_slo_definition ''description'' = Some (JStr ''d'')"
          "map_of ex_falsy_slo_definition ''impact'' = Some (JStr ''none'')"
    by (simp_all add: ex_falsy_slo_definition_def)
  note t = falsy_expected_slo_is_dropped[OF d a b c c' p q m,
             where data' = ?data' and kvs' = ?kvs' and x = ?x]
  have n: "map_of ex_falsy_slo_definition ''steady_state_check'' = None"
    by (simp add: ex_falsy_slo_definition_def)
  have first: "from_dict ex_to_float ex_falsy_slo_definition =
     Inr \<lparr>scenario_id = JStr ''demo'', title = JStr ''Demo'', description = JStr ''d'',
          impact = JStr ''none'', steady_state_check = JObj [],
          steps = [ex_shell_step ''inject'' ''echo ok'',
                   \<lparr>step_id = JStr ''verify'', action = JStr ''check-metric'', command = JNull,
                    query = JStr ''q1'', rollback = JNull, expected_slo = None,
                    observation = JNull\<rparr>]\<rparr>"
    using t[THEN conjunct1] by (simp add: n dict_get_def)
  have second: "\<exists>err. from_dict ex_to_float ?data' = Inl err"
    using t[THEN conjunct2] by simp
  show ?thesis using first second by blast
qed

text \<open>
  C7 (as stated, refuted). \<open>from_dict\<close> constructs a scenario from a definition with a
  shell step without command, a metric check without query and a step of an unsupported
  action; each of the three raises its configuration error only when it is executed.
\<close>

theorem construction_accepts_unrunnable_steps_counterexample:
  "\<exists>scn. from_dict ex_to_float ex_invalid_definition = Inr scn
         \<and> map (\<lambda>s. fst (execute_step ex_shell (ex_http 80) None s False ex_world)) (steps scn)
             = [Inl (ValueError_command (JStr ''a'')), Inl (ValueError_query (JStr ''b'')),
                Inl (ValueError_action (JStr ''http''))]"
  by (simp add: from_dict_def ex_invalid_definition_def bind_exc_def step_from_raw_def
        slo_of_step_def dict_get_def execute_step_def)

text \<open>
  C7 (amended). Construction rejects a definition with an empty list of steps, and a
  definition one of whose steps is rejected; it rejects a step whose non-empty
  \<open>expected_slo\<close> has no \<open>comparison\<close> or one that is neither \<open><=\<close> nor \<open>>=\<close>. It
  does not look at \<open>command\<close>, \<open>query\<close> or the value of \<open>action\<close>: a step without
  \<open>expected_slo\<close> is constructed from any \<open>id\<close> and \<open>action\<close>. A shell step without
  command, a metric check without query and a step of any other action are rejected by
  the executor, when the step is executed, before it has any effect.
\<close>

theorem construction_checks_slo_and_step_count:
  "(map_of data ''steps'' = Some (JArr []) \<longrightarrow>
      from_dict to_float data =
        (case map_of data ''id'' of None \<Rightarrow> Inl (KeyError ''id'')
         | Some i \<Rightarrow> Inl (ValueError_no_steps i)))
   \<and> (map_of data ''steps'' = Some (JArr raws) \<and> raw \<in> set raws \<and>
        step_from_raw to_float raw = Inl e \<longrightarrow> (\<exists>e'. from_dict to_float data = Inl e'))
   \<and> (map_of kvs ''expected_slo'' = Some x \<and> truthy x \<and>
        subscript x ''comparison'' \<noteq> Inr (JStr ''<='') \<and>
        subscript x ''comparison'' \<noteq> Inr (JStr ''>='') \<longrightarrow>
        (\<exists>e'. step_from_raw to_float (JObj kvs) = Inl e'))
   \<and> (map_of kvs ''expected_slo'' = None \<and> map_of kvs ''id'' = Some i \<and>
        map_of kvs ''action'' = Some a \<longrightarrow>
        step_from_raw to_float (JObj kvs) =
          Inr \<lparr>step_id = i, action = a,
               command = dict_get kvs ''command'', query = dict_get kvs ''query'',
               rollback = dict_get kvs ''rollback'', expected_slo = None,
               observation = dict_get kvs ''observation''\<rparr>)
   \<and> (action step = JStr ''shell'' \<and> \<not> truthy (command step) \<longrightarrow>
        execute_step sh net endpoint step dr w = (Inl (ValueError_command (step_id step)), w))
   \<and> (action step = JStr ''check-metric'' \<and> \<not> truthy (query step) \<longrightarrow>
        execute_step sh net endpoint step dr w = (Inl (ValueError_query (step_id step)), w))
   \<and> (action step \<noteq> JStr ''shell'' \<and> action step \<noteq> JStr ''check-metric'' \<longrightarrow>
        execute_step sh net endpoint step dr w = (Inl (ValueError_action (action step)), w))"
  using from_dict_no_steps[of data to_float] from_dict_bad_step[of data raws raw to_float e]
        step_from_raw_bad_comparison[of kvs x to_float]
        step_from_raw_plain[of kvs i a to_float]
        execute_step_guards[of step sh net endpoint dr w]
  by blast


theorem construction_checks_slo_and_step_count_witness:
  "from_dict ex_to_float [(''id'', JStr ''empty''), (''steps'', JArr [])]
     = Inl (ValueError_no_steps (JStr ''empty''))
   \<and> (\<exists>e. step_from_raw ex_to_float
              (JObj [(''id'', JStr ''v''), (''action'', JStr ''check-metric''),
                     (''expected_slo'', JObj [(''name'', JStr ''latency''),
                                              (''comparison'', JStr ''<''),
                                              (''threshold'', JInt 100)])]) = Inl e)
   \<and> execute_step ex_shell (ex_http 80) None (ex_shell_step ''a'' []) False ex_world
       = (Inl (ValueError_command (JStr ''a'')), ex_world)"
proof -
  let ?slo = "JObj [(''name'', JStr ''latency''), (''comparison'', JStr ''<''),
                    (''threshold'', JInt 100)]"
  let ?kvs = "[(''id'', JStr ''v''), (''action'', JStr ''check-metric''), (''expected_slo'', ?slo)]"
  note t = construction_checks_slo_and_step_count[where
      data = "[(''id'', JStr ''empty''), (''steps'', JArr [])]" and to_float = ex_to_float
      and kvs = ?kvs and x = ?slo and step = "ex_shell_step ''a'' []"
      and sh = ex_shell and net = "ex_http 80" and endpoint = None and dr = False and w = ex_world]
  have a: "from_dict ex_to_float [(''id'', JStr ''empty''), (''steps'', JArr [])]
             = Inl (ValueError_no_steps (JStr ''empty''))"
    using t[THEN conjunct1] by simp
  have b: "\<exists>e. step_from_raw ex_to_float (JObj ?kvs) = Inl e"
    using t[THEN conjunct2, THEN conjunct2, THEN conjunct1] by simp
  have c: "execute_step ex_shell (ex_http 80) None (ex_shell_step ''a'' []) False ex_world
             = (Inl (ValueError_command (JStr ''a'')), ex_world)"
    using t[THEN conjunct2, THEN conjunct2, THEN conjunct2, THEN conjunct2, THEN conjunct1]
    by (simp add: ex_shell_step_def)
  show ?thesis using a b c by simp
qed

text \<open>
  C8 (as stated, refuted). A record sealed with no note and a record sealed with the
  empty note store different \<open>note\<close> fields, and replay prints the same for both,
  whatever the library functions do: the header with the placeholder in the note's place.
\<close>

theorem replay_confuses_empty_note_counterexample:
  "p_note (payload (ChaosRunRecorder_init ex_fmt ex_now ex_scenario None True)) \<noteq>
   p_note (payload (ChaosRunRecorder_init ex_fmt ex_now ex_scenario (Some []) True))
   \<and> (\<forall>fmt dedent strip.
        replay fmt dedent strip
          (snd (snd (finalize (ChaosRunRecorder_init ex_fmt ex_now ex_scenario None True) ex_world)))
          ''20260102T030405Z_demo.json''
        = Inr [Header (strip (dedent
                 (nl_indent @ label_scenario @ fmt (JStr ''demo'') @ '' - '' @ fmt (JStr ''Demo'') @
                  nl_indent @ label_started @ ''20260102T030405Z'' @
                  nl_indent @ ''Dry-run: True'' @
                  nl_indent @ label_note @ none_label @
                  nl_indent @ label_failed @ none_label @
                  nl_indent))),
               StepsTitle]
      \<and> replay fmt dedent strip
          (snd (snd (finalize (ChaosRunRecorder_init ex_fmt ex_now ex_scenario (Some []) True) ex_world)))
          ''20260102T030405Z_demo.json''
        = Inr [Header (strip (dedent
                 (nl_indent @ label_scenario @ fmt (JStr ''demo'') @ '' - '' @ fmt (JStr ''Demo'') @
                  nl_indent @ label_started @ ''20260102T030405Z'' @
                  nl_indent @ ''Dry-run: True'' @
                  nl_indent @ label_note @ none_label @
                  nl_indent @ label_failed @ none_label @
                  nl_indent))),
               StepsTitle])"
  by (simp add: replay_def render_def header_text_def py_bool_def or_none_def finalize_def
        emit_def ChaosRunRecorder_init_def strftime_def pad2_def pad4_def digit_def Let_def
        ex_now_def ex_fmt_def ex_scenario_def ex_world_def)

text \<open>
  C8 (amended). Replay of a stored record prints as its header what \<open>textwrap.dedent\<close>
  and \<open>strip\<close> leave of the template filled with the scenario id and title, the start
  time, the dry-run flag, the note and the failure text, the last two replaced by the
  placeholder when absent or empty; then, for the steps in their stored order, a line
  with step id, action and status followed by one line for each entry of the detail in
  order, but the entry under the key \<open>status\<close>, for which no detail line is printed.
\<close>

theorem replay_prints_record:
  assumes "files w record_path = Some p"
  shows "\<exists>body.
           replay fmt dedent strip w record_path =
             Inr (Header (strip (dedent
                    (nl_indent @ label_scenario @ fmt (p_scenario_id p) @ '' - '' @
                       fmt (p_scenario_title p) @
                     nl_indent @ label_started @ p_started_at p @
                     nl_indent @ ''Dry-run: '' @ (if p_dry_run p then ''True'' else ''False'') @
                     nl_indent @ label_note @
                       (if p_note p = None \<or> p_note p = Some [] then none_label
                        else the (p_note p)) @
                     nl_indent @ label_failed @
                       (if p_failed p = None \<or> p_failed p = Some [] then none_label
                        else the (p_failed p)) @
                     nl_indent)))
                  # StepsTitle # body)
         \<and> body = concat (map (\<lambda>s. StepLine (r_step_id s) (r_action s) (r_status s) #
                                   map (\<lambda>kv. DetailLine (fst kv) (snd kv))
                                     (filter (\<lambda>kv. fst kv \<noteq> ''status'') (r_detail s)))
                            (p_steps p))
         \<and> filter is_StepLine body =
             map (\<lambda>s. StepLine (r_step_id s) (r_action s) (r_status s)) (p_steps p)
         \<and> (\<forall>s k v. s \<in> set (p_steps p) \<and> (k, v) \<in> set (r_detail s) \<and> k \<noteq> ''status''
               \<longrightarrow> DetailLine k v \<in> set body)
         \<and> (\<forall>v. DetailLine ''status'' v \<notin> set body)"
proof -
  let ?body = "concat (map render_step (p_steps p))"
  have r: "replay fmt dedent strip w record_path =
             Inr (Header (strip (dedent (header_text fmt p))) # StepsTitle # ?body)"
    using assms by (simp add: replay_def render_def)
  have h: "header_text fmt p =
             nl_indent @ label_scenario @ fmt (p_scenario_id p) @ '' - '' @
               fmt (p_scenario_title p) @
             nl_indent @ label_started @ p_started_at p @
             nl_indent @ ''Dry-run: '' @ (if p_dry_run p then ''True'' else ''False'') @
             nl_indent @ label_note @
               (if p_note p = None \<or> p_note p = Some [] then none_label else the (p_note p)) @
             nl_indent @ label_failed @
               (if p_failed p = None \<or> p_failed p = Some [] then none_label
                else the (p_failed p)) @
             nl_indent"
    by (simp only: header_text_def py_bool_def or_none_cases)
  have b: "?body = concat (map (\<lambda>s. StepLine (r_step_id s) (r_action s) (r_status s) #
                                   map (\<lambda>kv. DetailLine (fst kv) (snd kv))
                                     (filter (\<lambda>kv. fst kv \<noteq> ''status'') (r_detail s)))
                            (p_steps p))"
    by (simp add: render_step_def[abs_def])
  have d: "\<forall>s k v. s \<in> set (p_steps p) \<and> (k, v) \<in> set (r_detail s) \<and> k \<noteq> ''status''
               \<longrightarrow> DetailLine k v \<in> set ?body"
    using detail_in_body by blast
  have n: "\<forall>v. DetailLine ''status'' v \<notin> set ?body"
    using no_status_in_body by blast
  have f: "filter is_StepLine ?body =
             map (\<lambda>s. StepLine (r_step_id s) (r_action s) (r_status s)) (p_steps p)"
    by (rule filter_StepLine_body)
  show ?thesis
    apply (rule exI[of _ ?body])
    unfolding r h
    using b d n f by blast
qed

theorem replay_prints_record_witness:
  "replay ex_fmt ex_keep ex_keep (ex_world\<lparr>files := Map.empty(''r.json'' \<mapsto> ex_record)\<rparr>)
     ''r.json'' =
     Inr [Header (nl_indent @ label_scenario @ ''demo - Demo'' @
                  nl_indent @ label_started @ ''20260102T030405Z'' @
                  nl_indent @ ''Dry-run: True'' @
                  nl_indent @ label_note @ ''game day'' @
                  nl_indent @ label_failed @ none_label @
                  nl_indent),
          StepsTitle,
          StepLine (JStr ''inject'') (JStr ''shell'') (JStr ''skipped''),
          DetailLine ''observation'' JNull,
          DetailLine ''command'' (JStr ''echo ok''),
          DetailLine ''output'' (JStr dry_run_marker)]"
proof -
  have f: "files (ex_world\<lparr>files := Map.empty(''r.json'' \<mapsto> ex_record)\<rparr>) ''r.json'' = Some ex_record"
    by simp
  from replay_prints_record[OF f, of ex_fmt ex_keep ex_keep] obtain body where
    r: "replay ex_fmt ex_keep ex_keep (ex_world\<lparr>files := Map.empty(''r.json'' \<mapsto> ex_record)\<rparr>)
          ''r.json'' =
          Inr (Header (ex_keep (ex_keep
                 (nl_indent @ label_scenario @ ex_fmt (p_scenario_id ex_record) @ '' - '' @
                    ex_fmt (p_scenario_title ex_record) @
                  nl_indent @ label_started @ p_started_at ex_record @
                  nl_indent @ ''Dry-run: '' @ (if p_dry_run ex_record then ''True'' else ''False'') @
                  nl_indent @ label_note @
                    (if p_note ex_record = None \<or> p_note ex_record = Some [] then none_label
                     else the (p_note ex_record)) @
                  nl_indent @ label_failed @
                    (if p_failed ex_record = None \<or> p_failed ex_record = Some [] then none_label
                     else the (p_failed ex_record)) @
                  nl_indent)))
               # StepsTitle # body)"
    and b: "body = concat (map (\<lambda>s. StepLine (r_step_id s) (r_action s) (r_status s) #
                                   map (\<lambda>kv. DetailLine (fst kv) (snd kv))
                                     (filter (\<lambda>kv. fst kv \<noteq> ''status'') (r_detail s)))
                            (p_steps ex_record))"
    by blast
  show ?thesis unfolding r b by (simp add: ex_record_def ex_keep_def ex_fmt_def)
qed


end
